theory Spec2Isabelle
  imports Main
begin

section \<open>Python values, exceptions and outcomes\<close>

text \<open>
  The values that cross the interfaces of \<^verbatim>\<open>client.py\<close> and \<^verbatim>\<open>practice.py\<close>:
  \<^verbatim>\<open>None\<close>, booleans, integers, strings, sequences and key-to-value mappings
  (a \<^verbatim>\<open>dict\<close> with string keys, kept as an association list).
\<close>

datatype pyval =
    PNone
  | PBool bool
  | PInt int
  | PStr string
  | PList "pyval list"
  | PDict "(string \<times> pyval) list"

text \<open>Python's truth value of an object, as the \<^verbatim>\<open>with\<close> protocol tests it.\<close>

fun truthy :: "pyval \<Rightarrow> bool" where
  "truthy PNone = False"
| "truthy (PBool b) = b"
| "truthy (PInt i) = (i \<noteq> 0)"
| "truthy (PStr s) = (s \<noteq> [])"
| "truthy (PList xs) = (xs \<noteq> [])"
| "truthy (PDict kvs) = (kvs \<noteq> [])"

text \<open>
  Exceptions. \<open>AttributeError a\<close> is what Python raises for \<^verbatim>\<open>None.a\<close>;
  \<open>Failure m\<close> is any exception raised by a collaborator (transport, session, context
  manager, callback). \<open>ProtocolMisuseError\<close> is the error kind the specification names
  for an operation outside its valid state; no function of the source constructs it,
  only the session modelled from the specification does.
\<close>

datatype exc =
    AttributeError string
  | ProtocolMisuseError
  | Failure string

datatype 'a outcome = Returns 'a | Raises exc

section \<open>The world: an event trace and the collaborators' state\<close>

text \<open>
  Entries of the exit stack are labelled at the place of the source that registers them.
\<close>

datatype label =
    Transport string
  | Session pyval pyval
  | Conn string
  | Callback string

text \<open>
  The trace records, in order, every operation the modelled code invokes on a
  collaborator: a context manager entered with success (\<open>Acquired\<close>) or whose
  \<^verbatim>\<open>__aenter__\<close> raised (\<open>AcquireFailed\<close>), a callback pushed, an exit callback
  invoked (\<open>Release\<close>), and the three session operations. \<open>CallTool n i\<close> says that
  the facade invoked the session's \<^verbatim>\<open>call_tool\<close> with these arguments; whether the
  session then put a request on the wire is part of the collaborators' state.
\<close>

datatype event =
    Acquired label
  | AcquireFailed label
  | Pushed label
  | Release label
  | Initialize
  | ListTools
  | CallTool string pyval

record 'x world =
  trace :: "event list"
  ext :: 'x

definition log :: "event \<Rightarrow> 'x \<Rightarrow> 'x world \<Rightarrow> 'x world" where
  "log ev x w = \<lparr>trace = trace w @ [ev], ext = x\<rparr>"

fun released :: "event list \<Rightarrow> label list" where
  "released [] = []"
| "released (Release l # es) = l # released es"
| "released (e # es) = released es"

fun registered :: "event list \<Rightarrow> label list" where
  "registered [] = []"
| "registered (Acquired l # es) = l # registered es"
| "registered (Pushed l # es) = l # registered es"
| "registered (e # es) = registered es"

section \<open>AsyncExitStack\<close>

text \<open>
  Modelled from the spec: \<^verbatim>\<open>contextlib.AsyncExitStack\<close>, the Resource Stack of
  specification section 4.1, is imported from the Python standard library
  (\<^verbatim>\<open>practice.py\<close> line 59, \<^verbatim>\<open>client.py\<close> line 184); its code is not among the
  sources. The model keeps the recorded exit callbacks in registration order.
  An exit callback receives the exception in flight (if any) and either returns a
  value, whose truth value asks to suppress that exception, or raises.
\<close>

type_synonym 'x exit_cb = "exc option \<Rightarrow> 'x \<Rightarrow> pyval outcome \<times> 'x"

type_synonym 'x exit_stack = "(label \<times> 'x exit_cb) list"

record ('x, 'a) ctxmgr =
  cm_aenter :: "'x \<Rightarrow> 'a outcome \<times> 'x"
  cm_aexit :: "'x exit_cb"

text \<open>
  Modelled from the spec: \<^verbatim>\<open>enter_async_context\<close> (section 4.1, \<open>enter\<close>) invokes
  the resource's acquire step, records its release step on the stack and returns the
  acquired value; when the acquire step raises nothing is recorded.
\<close>

definition enter_async_context ::
  "'x exit_stack \<Rightarrow> label \<Rightarrow> ('x, 'a) ctxmgr \<Rightarrow> 'x world \<Rightarrow> 'a outcome \<times> 'x exit_stack \<times> 'x world"
where
  "enter_async_context st l cm w =
     (case cm_aenter cm (ext w) of
        (Raises e, x) \<Rightarrow> (Raises e, st, log (AcquireFailed l) x w)
      | (Returns v, x) \<Rightarrow> (Returns v, st @ [(l, cm_aexit cm)], log (Acquired l) x w))"

text \<open>
  Modelled from the spec: \<^verbatim>\<open>push_async_callback\<close> (section 4.1, \<open>push_cleanup\<close>)
  records a release-only callback. The recorded exit callback ignores the exception
  details and never asks for suppression.
\<close>

definition exit_wrapper :: "('x \<Rightarrow> pyval outcome \<times> 'x) \<Rightarrow> 'x exit_cb" where
  "exit_wrapper callback exc x =
     (case callback x of
        (Raises e, x') \<Rightarrow> (Raises e, x')
      | (Returns v, x') \<Rightarrow> (Returns PNone, x'))"

definition push_async_callback ::
  "'x exit_stack \<Rightarrow> label \<Rightarrow> ('x \<Rightarrow> pyval outcome \<times> 'x) \<Rightarrow> 'x world \<Rightarrow> 'x exit_stack \<times> 'x world"
where
  "push_async_callback st l callback w =
     (st @ [(l, exit_wrapper callback)], log (Pushed l) (ext w) w)"

text \<open>
  Modelled from the spec: the unwinding loop of \<^verbatim>\<open>AsyncExitStack.__aexit__\<close>
  (section 4.1, \<open>close\<close>). From the specification: the recorded entries are visited
  most recently registered first, each release step is invoked exactly once, and a
  failing release does not stop the iteration.

  Not from the specification: what a release step is told and which exception is
  left afterwards. Sections 4.1 and 7 describe release steps that take nothing, one
  aggregated teardown failure, and an original failure that takes precedence. The
  class the program imports does none of that, and the model follows the class, the
  context manager protocol of Python: each exit callback receives the exception
  currently in flight, a truthy return clears that exception, and a raise replaces it
  (Python keeps the replaced exception as the context of the new one; contexts are
  not modelled). The loop variables are the exception in flight, whether one was
  suppressed, and whether a raise is pending. Only the outcome values depend on this
  part, never the trace.
\<close>

fun run_exit_callbacks ::
  "'x exit_stack \<Rightarrow> exc option \<Rightarrow> bool \<Rightarrow> bool \<Rightarrow> 'x world \<Rightarrow> (exc option \<times> bool \<times> bool) \<times> 'x world"
where
  "run_exit_callbacks [] exc suppressed pending w = ((exc, suppressed, pending), w)"
| "run_exit_callbacks ((l, cb) # rest) exc suppressed pending w =
     (case cb exc (ext w) of
        (Returns v, x) \<Rightarrow>
          (if truthy v
           then run_exit_callbacks rest None True False (log (Release l) x w)
           else run_exit_callbacks rest exc suppressed pending (log (Release l) x w))
      | (Raises e, x) \<Rightarrow>
          run_exit_callbacks rest (Some e) suppressed True (log (Release l) x w))"

text \<open>
  Modelled from the spec: \<^verbatim>\<open>AsyncExitStack.__aexit__\<close>. From the specification:
  every entry is released and the stack is left empty. The value follows the Python
  class and not the aggregation of sections 4.1 and 7 (see the loop above): a pending
  raise propagates, which is the exception raised last; otherwise the return value
  says whether an exception was received and suppressed.
\<close>

definition stack_aexit ::
  "'x exit_stack \<Rightarrow> exc option \<Rightarrow> 'x world \<Rightarrow> pyval outcome \<times> 'x exit_stack \<times> 'x world"
where
  "stack_aexit st exc_details w =
     (case run_exit_callbacks (rev st) exc_details False False w of
        ((exc, suppressed, pending), w') \<Rightarrow>
          (if pending
           then (case exc of Some e \<Rightarrow> Raises e | None \<Rightarrow> Returns (PBool False))
           else Returns (PBool (exc_details \<noteq> None \<and> suppressed)),
           [], w'))"

text \<open>Modelled from the spec: \<^verbatim>\<open>aclose\<close> is \<^verbatim>\<open>__aexit__(None, None, None)\<close>.\<close>

definition aclose :: "'x exit_stack \<Rightarrow> 'x world \<Rightarrow> pyval outcome \<times> 'x exit_stack \<times> 'x world" where
  "aclose st w = stack_aexit st None w"

text \<open>
  The statement \<^verbatim>\<open>async with AsyncExitStack() as stack: body\<close>. The stack starts
  empty and entering it has no effect. On exit \<^verbatim>\<open>__aexit__\<close> receives the exception
  the body raised, if any; its own raise propagates, a truthy return swallows the
  body's exception, and otherwise the body's exception is raised again.
\<close>

definition async_with_stack ::
  "('x exit_stack \<Rightarrow> 'x world \<Rightarrow> 'a outcome \<times> 'x exit_stack \<times> 'x world) \<Rightarrow> 'x world \<Rightarrow> unit outcome \<times> 'x world"
where
  "async_with_stack body w =
     (case body [] w of
        (Raises e, st, w1) \<Rightarrow>
          (case stack_aexit st (Some e) w1 of
             (Raises e', st', w2) \<Rightarrow> (Raises e', w2)
           | (Returns v, st', w2) \<Rightarrow> (if truthy v then Returns () else Raises e, w2))
      | (Returns r, st, w1) \<Rightarrow>
          (case stack_aexit st None w1 of
             (Raises e', st', w2) \<Rightarrow> (Raises e', w2)
           | (Returns v, st', w2) \<Rightarrow> (Returns (), w2)))"

section \<open>practice.py\<close>

text \<open>
  The external state of the demo program is its standard output, one printed line per
  element. \<^verbatim>\<open>get_connection(name)\<close> returns a context manager whose \<^verbatim>\<open>__aenter__\<close>
  prints and returns \<^verbatim>\<open>name\<close> and whose \<^verbatim>\<open>__aexit__\<close> prints and returns
  \<^verbatim>\<open>None\<close>.
\<close>

type_synonym stdout = "string list"

definition print :: "string \<Rightarrow> stdout \<Rightarrow> stdout" where
  "print s out = out @ [s]"

definition ctx_aenter :: "string \<Rightarrow> stdout \<Rightarrow> string outcome \<times> stdout" where
  "ctx_aenter name out = (Returns name, print (''ENTER...'' @ name) out)"

definition ctx_aexit :: "string \<Rightarrow> stdout exit_cb" where
  "ctx_aexit name exc out = (Returns PNone, print (''EXIT! '' @ name) out)"

definition get_connection :: "string \<Rightarrow> (stdout, string) ctxmgr" where
  "get_connection name = \<lparr>cm_aenter = ctx_aenter name, cm_aexit = ctx_aexit name\<rparr>"

definition custom_cleanup :: "stdout \<Rightarrow> pyval outcome \<times> stdout" where
  "custom_cleanup out = (Returns PNone, print ''Custom cleanup logic here.'' out)"

text \<open>
  The body of \<^verbatim>\<open>main\<close>'s \<^verbatim>\<open>async with\<close> block. The local variable \<^verbatim>\<open>b\<close> is bound
  only inside the guarded branch, so it is an option; the last print tests
  \<^verbatim>\<open>'b' in locals()\<close>.
\<close>

definition main_tail ::
  "string \<Rightarrow> string option \<Rightarrow> stdout exit_stack \<Rightarrow> stdout world \<Rightarrow> unit outcome \<times> stdout exit_stack \<times> stdout world"
where
  "main_tail a b st w =
     (case push_async_callback st (Callback ''custom_cleanup'') custom_cleanup w of
        (st', w') \<Rightarrow>
          (Returns (), st',
           w'\<lparr>ext := print (''Doing with '' @ a @ '' and '' @ (case b of Some v \<Rightarrow> v | None \<Rightarrow> ''no B''))
                       (ext w')\<rparr>))"

definition main_body ::
  "stdout exit_stack \<Rightarrow> stdout world \<Rightarrow> unit outcome \<times> stdout exit_stack \<times> stdout world"
where
  "main_body stack w =
     (case enter_async_context stack (Conn ''A'') (get_connection ''A'') w of
        (Raises e, st1, w1) \<Rightarrow> (Raises e, st1, w1)
      | (Returns a, st1, w1) \<Rightarrow>
          (if a = ''A''
           then (case enter_async_context st1 (Conn ''B'') (get_connection ''B'') w1 of
                   (Raises e, st2, w2) \<Rightarrow> (Raises e, st2, w2)
                 | (Returns b, st2, w2) \<Rightarrow>
                     main_tail a (Some b) st2
                       (w2\<lparr>ext := print (''Using connection: '' @ a @ '' and '' @ b) (ext w2)\<rparr>))
           else main_tail a None st1 w1))"

definition main :: "stdout world \<Rightarrow> unit outcome \<times> stdout world" where
  "main w = async_with_stack main_body w"

text \<open>
  A body for \<^verbatim>\<open>async with AsyncExitStack() as stack\<close> that performs an arbitrary
  sequence of \<^verbatim>\<open>enter_async_context\<close> and \<^verbatim>\<open>push_async_callback\<close> calls, as
  \<^verbatim>\<open>main\<close> does with two connections and one callback. A raising acquire step ends
  the body there.
\<close>

datatype 'x stack_op =
    Enter label "('x, pyval) ctxmgr"
  | Push label "'x \<Rightarrow> pyval outcome \<times> 'x"


fun run_ops ::
  "'x stack_op list \<Rightarrow> 'x exit_stack \<Rightarrow> 'x world \<Rightarrow> unit outcome \<times> 'x exit_stack \<times> 'x world"
where
  "run_ops [] st w = (Returns (), st, w)"
| "run_ops (Enter l cm # ops) st w =
     (case enter_async_context st l cm w of
        (Raises e, st', w') \<Rightarrow> (Raises e, st', w')
      | (Returns v, st', w') \<Rightarrow> run_ops ops st' w')"
| "run_ops (Push l cb # ops) st w =
     (case push_async_callback st l cb w of (st', w') \<Rightarrow> run_ops ops st' w')"

section \<open>client.py\<close>

text \<open>
  The collaborators come from the \<^verbatim>\<open>mcp\<close> package and are parameters of the model.
  A session object offers the three requests the facade uses; each acts on the
  collaborators' state. \<^verbatim>\<open>list_tools\<close> answers with an object whose \<^verbatim>\<open>tools\<close>
  attribute is the sequence of descriptors.
\<close>

record Tool =
  name :: string
  input_schema :: "pyval option"
  output_schema :: "pyval option"

record ListToolsResult =
  tools :: "Tool list"

record 'x session =
  initialize :: "'x \<Rightarrow> pyval outcome \<times> 'x"
  list_tools :: "'x \<Rightarrow> ListToolsResult outcome \<times> 'x"
  call_tool :: "string \<Rightarrow> pyval \<Rightarrow> 'x \<Rightarrow> pyval outcome \<times> 'x"

text \<open>
  \<^verbatim>\<open>streamablehttp_client(url)\<close> is a context manager yielding a triple whose first
  two components are the read and write halves; \<^verbatim>\<open>ClientSession(read, write)\<close> is
  a context manager yielding the session object.
\<close>

record 'x library =
  streamablehttp_client :: "string \<Rightarrow> ('x, pyval \<times> pyval \<times> pyval) ctxmgr"
  ClientSession :: "pyval \<Rightarrow> pyval \<Rightarrow> ('x, 'x session) ctxmgr"

text \<open>The facade's attributes; \<open>sess\<close> is \<^verbatim>\<open>_sess\<close>, \<open>None\<close> until a session is bound.\<close>

record 'x MCPClient =
  url :: string
  stack :: "'x exit_stack"
  sess :: "'x session option"

definition MCPClient_init :: "string \<Rightarrow> 'x MCPClient" where
  "MCPClient_init u = \<lparr>url = u, stack = [], sess = None\<rparr>"

text \<open>
  \<^verbatim>\<open>__aenter__\<close>: enter the transport, enter the session over its two halves, bind
  \<^verbatim>\<open>_sess\<close>, run the handshake. There is no handler: a raise at any step leaves the
  method at once, with the attributes as they are at that point.
\<close>

definition MCPClient_aenter ::
  "'x library \<Rightarrow> 'x MCPClient \<Rightarrow> 'x world \<Rightarrow> unit outcome \<times> 'x MCPClient \<times> 'x world"
where
  "MCPClient_aenter lib self w =
     (case enter_async_context (stack self) (Transport (url self))
             (streamablehttp_client lib (url self)) w of
        (Raises e, st1, w1) \<Rightarrow> (Raises e, self\<lparr>stack := st1\<rparr>, w1)
      | (Returns (read, write, u), st1, w1) \<Rightarrow>
          (case enter_async_context st1 (Session read write) (ClientSession lib read write) w1 of
             (Raises e, st2, w2) \<Rightarrow> (Raises e, self\<lparr>stack := st2\<rparr>, w2)
           | (Returns s, st2, w2) \<Rightarrow>
               (case initialize s (ext w2) of
                  (Raises e, x3) \<Rightarrow>
                    (Raises e, self\<lparr>stack := st2, sess := Some s\<rparr>, log Initialize x3 w2)
                | (Returns v, x3) \<Rightarrow>
                    (Returns (), self\<lparr>stack := st2, sess := Some s\<rparr>, log Initialize x3 w2))))"

text \<open>
  \<^verbatim>\<open>__aexit__(self, *args)\<close>: closes the stack; \<^verbatim>\<open>args\<close> is not used and the method
  returns \<^verbatim>\<open>None\<close>.
\<close>

definition MCPClient_aexit ::
  "'x MCPClient \<Rightarrow> exc option \<Rightarrow> 'x world \<Rightarrow> pyval outcome \<times> 'x MCPClient \<times> 'x world"
where
  "MCPClient_aexit self args w =
     (case aclose (stack self) w of
        (Raises e, st', w') \<Rightarrow> (Raises e, self\<lparr>stack := st'\<rparr>, w')
      | (Returns v, st', w') \<Rightarrow> (Returns PNone, self\<lparr>stack := st'\<rparr>, w'))"

definition MCPClient_list_tool_names ::
  "'x MCPClient \<Rightarrow> 'x world \<Rightarrow> string list outcome \<times> 'x world"
where
  "MCPClient_list_tool_names self w =
     (case sess self of
        None \<Rightarrow> (Raises (AttributeError ''list_tools''), w)
      | Some s \<Rightarrow>
          (case list_tools s (ext w) of
             (Raises e, x) \<Rightarrow> (Raises e, log ListTools x w)
           | (Returns res, x) \<Rightarrow> (Returns (map name (tools res)), log ListTools x w)))"

definition MCPClient_call_tool ::
  "'x MCPClient \<Rightarrow> string \<Rightarrow> pyval \<Rightarrow> 'x world \<Rightarrow> pyval outcome \<times> 'x world"
where
  "MCPClient_call_tool self tool_name tool_input w =
     (case sess self of
        None \<Rightarrow> (Raises (AttributeError ''call_tool''), w)
      | Some s \<Rightarrow>
          (case call_tool s tool_name tool_input (ext w) of
             (r, x) \<Rightarrow> (r, log (CallTool tool_name tool_input) x w)))"

text \<open>
  The statement \<^verbatim>\<open>async with MCPClient(url) as client: body\<close> of \<^verbatim>\<open>main\<close>. When
  \<^verbatim>\<open>__aenter__\<close> raises, the statement raises without calling \<^verbatim>\<open>__aexit__\<close>.
  Otherwise \<^verbatim>\<open>__aexit__\<close> runs on every exit of the body and its truth value decides
  whether an exception of the body is swallowed.
\<close>

definition async_with_MCPClient ::
  "'x library \<Rightarrow> string \<Rightarrow> ('x MCPClient \<Rightarrow> 'x world \<Rightarrow> 'a outcome \<times> 'x MCPClient \<times> 'x world)
     \<Rightarrow> 'x world \<Rightarrow> unit outcome \<times> 'x MCPClient \<times> 'x world"
where
  "async_with_MCPClient lib u body w =
     (case MCPClient_aenter lib (MCPClient_init u) w of
        (Raises e, c, w1) \<Rightarrow> (Raises e, c, w1)
      | (Returns r, c, w1) \<Rightarrow>
          (case body c w1 of
             (Raises e, c2, w2) \<Rightarrow>
               (case MCPClient_aexit c2 (Some e) w2 of
                  (Raises e', c3, w3) \<Rightarrow> (Raises e', c3, w3)
                | (Returns v, c3, w3) \<Rightarrow> (if truthy v then Returns () else Raises e, c3, w3))
           | (Returns b, c2, w2) \<Rightarrow>
               (case MCPClient_aexit c2 None w2 of
                  (Raises e', c3, w3) \<Rightarrow> (Raises e', c3, w3)
                | (Returns v, c3, w3) \<Rightarrow> (Returns (), c3, w3))))"

text \<open>
  A body that issues a sequence of facade operations on the client, as \<^verbatim>\<open>main\<close>
  issues one \<^verbatim>\<open>call_tool\<close>; the first raise ends it.
\<close>

datatype facade_op = ListToolNames | CallToolOp string pyval

fun run_facade_ops ::
  "facade_op list \<Rightarrow> 'x MCPClient \<Rightarrow> 'x world \<Rightarrow> unit outcome \<times> 'x MCPClient \<times> 'x world"
where
  "run_facade_ops [] c w = (Returns (), c, w)"
| "run_facade_ops (ListToolNames # ops) c w =
     (case MCPClient_list_tool_names c w of
        (Raises e, w') \<Rightarrow> (Raises e, c, w')
      | (Returns ns, w') \<Rightarrow> run_facade_ops ops c w')"
| "run_facade_ops (CallToolOp n i # ops) c w =
     (case MCPClient_call_tool c n i w of
        (Raises e, w') \<Rightarrow> (Raises e, c, w')
      | (Returns v, w') \<Rightarrow> run_facade_ops ops c w')"


text \<open>
  A body that pushes one more cleanup callback on the client's stack, which is a
  public attribute.
\<close>

definition push_on_client ::
  "label \<Rightarrow> ('x \<Rightarrow> pyval outcome \<times> 'x) \<Rightarrow> 'x MCPClient \<Rightarrow> 'x world \<Rightarrow> unit outcome \<times> 'x MCPClient \<times> 'x world"
where
  "push_on_client l callback c w =
     (case push_async_callback (stack c) l callback w of
        (st', w') \<Rightarrow> (Returns (), c\<lparr>stack := st'\<rparr>, w'))"

section \<open>The protocol session of the specification\<close>

text \<open>
  Modelled from the spec: the session behind the facade is \<^verbatim>\<open>mcp.ClientSession\<close>,
  imported from the \<^verbatim>\<open>mcp\<close> package; its code is not among the sources. Section 4.2
  gives its states and section 3 its pending requests; here the session's state is
  its phase, the requests it has put on the wire, in order, and the next request
  identifier.
\<close>

datatype phase = Uninitialized | Initializing | Ready | Closing | Closed

datatype request =
    HandshakeRequest nat
  | ListRequest nat
  | InvocationRequest nat string pyval

record session_state =
  phase :: phase
  wire :: "request list"
  next_id :: nat

text \<open>
  Modelled from the spec: the server end of the wire, as far as sections 4.2 and 6
  need it: whether it acknowledges the handshake, the tool descriptors it lists, and
  its answer to an invocation (\<open>None\<close> when it reports a tool-level error such as an
  unknown tool).
\<close>

record server =
  handshake_ack :: bool
  offered :: "Tool list"
  answer :: "string \<Rightarrow> pyval \<Rightarrow> pyval option"

text \<open>
  Modelled from the spec: an input is structured when it is a key-to-value mapping
  (section 4.2, \<^verbatim>\<open>call_tool\<close>).
\<close>

fun is_mapping :: "pyval \<Rightarrow> bool" where
  "is_mapping (PDict kvs) = True"
| "is_mapping v = False"

text \<open>
  Modelled from the spec: sending puts one request on the wire and uses up its
  identifier, so that every outbound request carries a fresh one (section 4.2,
  correlation discipline).
\<close>

definition send :: "request \<Rightarrow> session_state \<Rightarrow> session_state" where
  "send rq s = s\<lparr>wire := wire s @ [rq], next_id := Suc (next_id s)\<rparr>"

text \<open>
  Modelled from the spec: \<^verbatim>\<open>initialize()\<close> (section 4.2) sends the handshake
  request; an acknowledgment makes the session \<open>Ready\<close>, any other outcome closes it
  and surfaces an initialization failure; a repeated call fails with a
  protocol-misuse error. Waiting for the reply is one step here, so the phase
  \<open>Initializing\<close> is passed through within the call.
\<close>

definition spec_initialize :: "server \<Rightarrow> session_state \<Rightarrow> pyval outcome \<times> session_state" where
  "spec_initialize srv s =
     (if phase s = Uninitialized
      then (if handshake_ack srv
            then (Returns PNone, (send (HandshakeRequest (next_id s)) s)\<lparr>phase := Ready\<rparr>)
            else (Raises (Failure ''initialization failed''),
                  (send (HandshakeRequest (next_id s)) s)\<lparr>phase := Closed\<rparr>))
      else (Raises ProtocolMisuseError, s))"

text \<open>
  Modelled from the spec: \<^verbatim>\<open>list_tools()\<close> (section 4.2) is valid only in
  \<open>Ready\<close>; it sends a list request and returns the descriptors as received.
\<close>

definition spec_list_tools :: "server \<Rightarrow> session_state \<Rightarrow> ListToolsResult outcome \<times> session_state" where
  "spec_list_tools srv s =
     (if phase s = Ready
      then (Returns \<lparr>tools = offered srv\<rparr>, send (ListRequest (next_id s)) s)
      else (Raises ProtocolMisuseError, s))"

text \<open>
  Modelled from the spec: \<^verbatim>\<open>call_tool(name, input)\<close> (section 4.2) is valid only
  in \<open>Ready\<close>, else it fails with the state error. It validates that the name is
  non-empty and the input a key-to-value mapping; only then does it send an invocation
  request tagged with a fresh identifier and return the result, or fail with a
  remote error when the server reports a tool-level error.
\<close>

definition spec_call_tool ::
  "server \<Rightarrow> string \<Rightarrow> pyval \<Rightarrow> session_state \<Rightarrow> pyval outcome \<times> session_state"
where
  "spec_call_tool srv nm inp s =
     (if phase s = Ready
      then (if nm \<noteq> [] \<and> is_mapping inp
            then (case answer srv nm inp of
                    Some v \<Rightarrow> Returns v
                  | None \<Rightarrow> Raises (Failure ''remote tool error''),
                  send (InvocationRequest (next_id s) nm inp) s)
            else (Raises (Failure ''invalid arguments''), s))
      else (Raises ProtocolMisuseError, s))"

text \<open>
  Modelled from the spec: the session object the facade holds, with the three
  operations of section 4.2.
\<close>

definition spec_session :: "server \<Rightarrow> session_state session" where
  "spec_session srv =
     \<lparr>initialize = spec_initialize srv, list_tools = spec_list_tools srv,
      call_tool = spec_call_tool srv\<rparr>"

section \<open>Concrete collaborators\<close>

text \<open>
  A server without state of its own: the transport opens and closes without error, the
  session offers one tool, \<^verbatim>\<open>get_greeting\<close>, and answers every call. The flag says
  whether the handshake succeeds or times out.
\<close>

definition demo_transport :: "(unit, pyval \<times> pyval \<times> pyval) ctxmgr" where
  "demo_transport =
     \<lparr>cm_aenter = (\<lambda>x. (Returns (PStr ''read'', PStr ''write'', PNone), x)),
      cm_aexit = (\<lambda>exc x. (Returns PNone, x))\<rparr>"

definition demo_session :: "bool \<Rightarrow> unit session" where
  "demo_session handshake_ok =
     \<lparr>initialize = (\<lambda>x. if handshake_ok then (Returns PNone, x)
                         else (Raises (Failure ''handshake timeout''), x)),
      list_tools = (\<lambda>x. (Returns \<lparr>tools = [\<lparr>name = ''get_greeting'', input_schema = None,
                                            output_schema = None\<rparr>]\<rparr>, x)),
      call_tool = (\<lambda>n i x. (Returns (PDict [(''tool'', PStr n), (''input'', i)]), x))\<rparr>"

definition demo_library :: "bool \<Rightarrow> unit library" where
  "demo_library handshake_ok =
     \<lparr>streamablehttp_client = (\<lambda>u. demo_transport),
      ClientSession = (\<lambda>r w. \<lparr>cm_aenter = (\<lambda>x. (Returns (demo_session handshake_ok), x)),
                               cm_aexit = (\<lambda>exc x. (Returns PNone, x))\<rparr>)\<rparr>"

definition demo_url :: string where
  "demo_url = ''http://localhost:8000/mcp''"

definition w0 :: "unit world" where
  "w0 = \<lparr>trace = [], ext = ()\<rparr>"

text \<open>
  The client and the world after a successful acquisition against that server, a
  session whose \<^verbatim>\<open>call_tool\<close> reports an unknown tool, a cleanup callback that does
  nothing, and a body of the \<^verbatim>\<open>async with\<close> block that raises.
\<close>

definition demo_client :: "unit MCPClient" where
  "demo_client = fst (snd (MCPClient_aenter (demo_library True) (MCPClient_init demo_url) w0))"

definition demo_world :: "unit world" where
  "demo_world = snd (snd (MCPClient_aenter (demo_library True) (MCPClient_init demo_url) w0))"

definition failing_session :: "unit session" where
  "failing_session = (demo_session True)\<lparr>call_tool := (\<lambda>n i x. (Raises (Failure ''unknown tool''), x))\<rparr>"

definition noop_callback :: "unit \<Rightarrow> pyval outcome \<times> unit" where
  "noop_callback x = (Returns PNone, x)"

definition raising_body :: "unit MCPClient \<Rightarrow> unit world \<Rightarrow> unit outcome \<times> unit MCPClient \<times> unit world" where
  "raising_body c w = (Raises (Failure ''body failed''), c, w)"

text \<open>
  A session that offers three descriptors, two of them with the same name; a library
  whose session raises when it is closed, with the client and the world after a
  successful acquisition against it; and, for the session of the specification, a
  server with the one tool \<^verbatim>\<open>get_greeting\<close>, a world in which the handshake is done,
  and a client bound to that session.
\<close>

definition three_tools_session :: "unit session" where
  "three_tools_session = (demo_session True)\<lparr>list_tools := (\<lambda>x. (Returns \<lparr>tools =
       [\<lparr>name = ''b'', input_schema = None, output_schema = None\<rparr>,
        \<lparr>name = ''a'', input_schema = None, output_schema = None\<rparr>,
        \<lparr>name = ''b'', input_schema = None, output_schema = None\<rparr>]\<rparr>, x))\<rparr>"

definition closing_fails_library :: "unit library" where
  "closing_fails_library =
     \<lparr>streamablehttp_client = (\<lambda>u. demo_transport),
      ClientSession = (\<lambda>r w. \<lparr>cm_aenter = (\<lambda>x. (Returns (demo_session True), x)),
                               cm_aexit = (\<lambda>exc x. (Raises (Failure ''session close failed''), x))\<rparr>)\<rparr>"

definition closing_client :: "unit MCPClient" where
  "closing_client = fst (snd (MCPClient_aenter closing_fails_library (MCPClient_init demo_url) w0))"

definition closing_world :: "unit world" where
  "closing_world = snd (snd (MCPClient_aenter closing_fails_library (MCPClient_init demo_url) w0))"

definition greeting_server :: server where
  "greeting_server =
     \<lparr>handshake_ack = True,
      offered = [\<lparr>name = ''get_greeting'', input_schema = None, output_schema = None\<rparr>],
      answer = (\<lambda>n i. if n = ''get_greeting'' then Some (PDict [(''greeting'', i)]) else None)\<rparr>"

definition ready_world :: "session_state world" where
  "ready_world = \<lparr>trace = [], ext = \<lparr>phase = Ready, wire = [HandshakeRequest 0], next_id = 1\<rparr>\<rparr>"

definition spec_client :: "session_state MCPClient" where
  "spec_client = (MCPClient_init demo_url)\<lparr>sess := Some (spec_session greeting_server)\<rparr>"

section \<open>Facts about the trace and the exit stack\<close>

lemma trace_log [simp]: "trace (log ev x w) = trace w @ [ev]"
  by (simp add: log_def)

lemma ext_log [simp]: "ext (log ev x w) = x"
  by (simp add: log_def)

lemma released_append [simp]: "released (es @ fs) = released es @ released fs"
  by (induction es rule: released.induct) auto

lemma registered_append [simp]: "registered (es @ fs) = registered es @ registered fs"
  by (induction es rule: registered.induct) auto

lemma released_map_Release [simp]: "released (map Release ls) = ls"
  by (induction ls) auto

lemma registered_map_Release [simp]: "registered (map Release ls) = []"
  by (induction ls) auto

lemma run_exit_callbacks_trace:
  "trace (snd (run_exit_callbacks cbs exc s p w)) = trace w @ map Release (map fst cbs)"
proof (induction cbs arbitrary: exc s p w)
  case Nil
  show ?case by simp
next
  case (Cons cb cbs)
  obtain l f where cb: "cb = (l, f)" by (cases cb)
  obtain r x where fx: "f exc (ext w) = (r, x)" by (cases "f exc (ext w)")
  show ?case
    by (cases r) (simp_all add: cb fx Cons.IH)
qed

lemma stack_aexit_trace:
  "trace (snd (snd (stack_aexit st exc w))) = trace w @ map Release (rev (map fst st))"
proof -
  obtain e s p w' where r: "run_exit_callbacks (rev st) exc False False w = ((e, s, p), w')"
    by (cases "run_exit_callbacks (rev st) exc False False w") auto
  from run_exit_callbacks_trace [of "rev st" exc False False w] r show ?thesis
    by (simp add: stack_aexit_def rev_map)
qed

lemma stack_aexit_stack: "fst (snd (stack_aexit st exc w)) = []"
  by (simp add: stack_aexit_def split: prod.splits)




section \<open>Facts about the facade\<close>

lemma MCPClient_aenter_transport_fails:
  assumes "cm_aenter (streamablehttp_client lib (url c)) (ext w) = (Raises e, x1)"
  shows "MCPClient_aenter lib c w = (Raises e, c, log (AcquireFailed (Transport (url c))) x1 w)"
  using assms by (simp add: MCPClient_aenter_def enter_async_context_def)

lemma MCPClient_aenter_session_fails:
  assumes "cm_aenter (streamablehttp_client lib (url c)) (ext w) = (Returns (r, wr, u), x1)"
    and "cm_aenter (ClientSession lib r wr) x1 = (Raises e, x2)"
  shows "MCPClient_aenter lib c w =
    (Raises e, c\<lparr>stack := stack c @ [(Transport (url c), cm_aexit (streamablehttp_client lib (url c)))]\<rparr>,
     log (AcquireFailed (Session r wr)) x2 (log (Acquired (Transport (url c))) x1 w))"
  using assms by (simp add: MCPClient_aenter_def enter_async_context_def)

lemma MCPClient_aenter_initialize_fails:
  assumes "cm_aenter (streamablehttp_client lib (url c)) (ext w) = (Returns (r, wr, u), x1)"
    and "cm_aenter (ClientSession lib r wr) x1 = (Returns s, x2)"
    and "initialize s x2 = (Raises e, x3)"
  shows "MCPClient_aenter lib c w =
    (Raises e,
     c\<lparr>stack := stack c @ [(Transport (url c), cm_aexit (streamablehttp_client lib (url c))),
                            (Session r wr, cm_aexit (ClientSession lib r wr))],
       sess := Some s\<rparr>,
     log Initialize x3 (log (Acquired (Session r wr)) x2 (log (Acquired (Transport (url c))) x1 w)))"
  using assms by (simp add: MCPClient_aenter_def enter_async_context_def)

lemma MCPClient_aenter_succeeds:
  assumes "cm_aenter (streamablehttp_client lib (url c)) (ext w) = (Returns (r, wr, u), x1)"
    and "cm_aenter (ClientSession lib r wr) x1 = (Returns s, x2)"
    and "initialize s x2 = (Returns v, x3)"
  shows "MCPClient_aenter lib c w =
    (Returns (),
     c\<lparr>stack := stack c @ [(Transport (url c), cm_aexit (streamablehttp_client lib (url c))),
                            (Session r wr, cm_aexit (ClientSession lib r wr))],
       sess := Some s\<rparr>,
     log Initialize x3 (log (Acquired (Session r wr)) x2 (log (Acquired (Transport (url c))) x1 w)))"
  using assms by (simp add: MCPClient_aenter_def enter_async_context_def)

lemma MCPClient_aenter_Returns_inv:
  assumes "MCPClient_aenter lib c w = (Returns (), c1, w1)"
  shows "\<exists>r wr u x1 s x2 v x3.
      cm_aenter (streamablehttp_client lib (url c)) (ext w) = (Returns (r, wr, u), x1)
    \<and> cm_aenter (ClientSession lib r wr) x1 = (Returns s, x2)
    \<and> initialize s x2 = (Returns v, x3)"
proof -
  obtain o1 x1 where t: "cm_aenter (streamablehttp_client lib (url c)) (ext w) = (o1, x1)"
    by (cases "cm_aenter (streamablehttp_client lib (url c)) (ext w)")
  show ?thesis
  proof (cases o1)
    case (Raises e)
    with t assms MCPClient_aenter_transport_fails [of lib c w e x1] show ?thesis by simp
  next
    case (Returns triple)
    obtain r wr u where tr: "triple = (r, wr, u)" by (cases triple)
    obtain o2 x2 where s: "cm_aenter (ClientSession lib r wr) x1 = (o2, x2)"
      by (cases "cm_aenter (ClientSession lib r wr) x1")
    show ?thesis
    proof (cases o2)
      case (Raises e)
      with t s tr Returns assms MCPClient_aenter_session_fails [of lib c w r wr u x1 e x2]
      show ?thesis by simp
    next
      case R2: (Returns s')
      obtain o3 x3 where i: "initialize s' x2 = (o3, x3)" by (cases "initialize s' x2")
      show ?thesis
      proof (cases o3)
        case (Raises e)
        with t s tr Returns R2 i assms
          MCPClient_aenter_initialize_fails [of lib c w r wr u x1 s' x2 e x3]
        show ?thesis by simp
      next
        case R3: (Returns v)
        with t s tr Returns R2 i show ?thesis by simp
      qed
    qed
  qed
qed

lemma MCPClient_aenter_Raises_inv:
  assumes "MCPClient_aenter lib c w = (Raises e, c1, w1)"
  shows "(\<exists>x1. cm_aenter (streamablehttp_client lib (url c)) (ext w) = (Raises e, x1)
            \<and> c1 = c \<and> w1 = log (AcquireFailed (Transport (url c))) x1 w)
       \<or> (\<exists>r wr u x1 x2.
            cm_aenter (streamablehttp_client lib (url c)) (ext w) = (Returns (r, wr, u), x1)
            \<and> cm_aenter (ClientSession lib r wr) x1 = (Raises e, x2)
            \<and> map fst (stack c1) = map fst (stack c) @ [Transport (url c)]
            \<and> w1 = log (AcquireFailed (Session r wr)) x2 (log (Acquired (Transport (url c))) x1 w))
       \<or> (\<exists>r wr u x1 s x2 x3.
            cm_aenter (streamablehttp_client lib (url c)) (ext w) = (Returns (r, wr, u), x1)
            \<and> cm_aenter (ClientSession lib r wr) x1 = (Returns s, x2)
            \<and> initialize s x2 = (Raises e, x3)
            \<and> map fst (stack c1) = map fst (stack c) @ [Transport (url c), Session r wr]
            \<and> w1 = log Initialize x3 (log (Acquired (Session r wr)) x2
                      (log (Acquired (Transport (url c))) x1 w)))"
proof -
  obtain o1 x1 where t: "cm_aenter (streamablehttp_client lib (url c)) (ext w) = (o1, x1)"
    by (cases "cm_aenter (streamablehttp_client lib (url c)) (ext w)")
  show ?thesis
  proof (cases o1)
    case (Raises e')
    with t assms MCPClient_aenter_transport_fails [of lib c w e' x1] show ?thesis by auto
  next
    case (Returns triple)
    obtain r wr u where tr: "triple = (r, wr, u)" by (cases triple)
    obtain o2 x2 where s: "cm_aenter (ClientSession lib r wr) x1 = (o2, x2)"
      by (cases "cm_aenter (ClientSession lib r wr) x1")
    show ?thesis
    proof (cases o2)
      case (Raises e')
      with t s tr Returns assms MCPClient_aenter_session_fails [of lib c w r wr u x1 e' x2]
      show ?thesis by auto
    next
      case R2: (Returns s')
      obtain o3 x3 where i: "initialize s' x2 = (o3, x3)" by (cases "initialize s' x2")
      show ?thesis
      proof (cases o3)
        case (Raises e')
        with t s tr Returns R2 i assms
          MCPClient_aenter_initialize_fails [of lib c w r wr u x1 s' x2 e' x3]
        show ?thesis by auto
      next
        case R3: (Returns v)
        with t s tr Returns R2 i assms
          MCPClient_aenter_succeeds [of lib c w r wr u x1 s' x2 v x3]
        show ?thesis by simp
      qed
    qed
  qed
qed

lemma MCPClient_aenter_trace:
  "\<exists>es. trace (snd (snd (MCPClient_aenter lib c w))) = trace w @ es
        \<and> released es = []
        \<and> map fst (stack (fst (snd (MCPClient_aenter lib c w)))) = map fst (stack c) @ registered es"
proof -
  obtain o1 x1 where t: "cm_aenter (streamablehttp_client lib (url c)) (ext w) = (o1, x1)"
    by (cases "cm_aenter (streamablehttp_client lib (url c)) (ext w)")
  show ?thesis
  proof (cases o1)
    case (Raises e)
    with t MCPClient_aenter_transport_fails [of lib c w e x1] show ?thesis by simp
  next
    case (Returns triple)
    obtain r wr u where tr: "triple = (r, wr, u)" by (cases triple)
    obtain o2 x2 where s: "cm_aenter (ClientSession lib r wr) x1 = (o2, x2)"
      by (cases "cm_aenter (ClientSession lib r wr) x1")
    show ?thesis
    proof (cases o2)
      case (Raises e)
      with t s tr Returns MCPClient_aenter_session_fails [of lib c w r wr u x1 e x2]
      show ?thesis by simp
    next
      case R2: (Returns s')
      obtain o3 x3 where i: "initialize s' x2 = (o3, x3)" by (cases "initialize s' x2")
      show ?thesis
      proof (cases o3)
        case (Raises e)
        with t s tr Returns R2 i
          MCPClient_aenter_initialize_fails [of lib c w r wr u x1 s' x2 e x3]
        show ?thesis by simp
      next
        case R3: (Returns v)
        with t s tr Returns R2 i
          MCPClient_aenter_succeeds [of lib c w r wr u x1 s' x2 v x3]
        show ?thesis by simp
      qed
    qed
  qed
qed

lemma MCPClient_aexit_trace:
  "trace (snd (snd (MCPClient_aexit c args w))) = trace w @ map Release (rev (map fst (stack c)))"
proof -
  obtain r st w' where a: "stack_aexit (stack c) None w = (r, st, w')"
    by (cases "stack_aexit (stack c) None w")
  from stack_aexit_trace [of "stack c" None w] a show ?thesis
    by (cases r) (simp_all add: MCPClient_aexit_def aclose_def)
qed

lemma MCPClient_aexit_stack:
  "stack (fst (snd (MCPClient_aexit c args w))) = []"
proof -
  obtain r st w' where a: "stack_aexit (stack c) None w = (r, st, w')"
    by (cases "stack_aexit (stack c) None w")
  from stack_aexit_stack [of "stack c" None w] a show ?thesis
    by (cases r) (simp_all add: MCPClient_aexit_def aclose_def)
qed

lemma MCPClient_aexit_value:
  "fst (MCPClient_aexit c args w) = Returns v \<Longrightarrow> v = PNone"
proof -
  assume h: "fst (MCPClient_aexit c args w) = Returns v"
  obtain r st w' where a: "stack_aexit (stack c) None w = (r, st, w')"
    by (cases "stack_aexit (stack c) None w")
  from h a show ?thesis
    by (cases r) (simp_all add: MCPClient_aexit_def aclose_def)
qed

lemma async_with_MCPClient_trace:
  assumes "MCPClient_aenter lib (MCPClient_init u) w = (Returns (), c1, w1)"
  shows "trace (snd (snd (async_with_MCPClient lib u body w)))
     = trace (snd (snd (body c1 w1)))
        @ map Release (rev (map fst (stack (fst (snd (body c1 w1))))))"
proof -
  obtain rb c2 w2 where b: "body c1 w1 = (rb, c2, w2)" by (cases "body c1 w1")
  show ?thesis
  proof (cases rb)
    case (Returns v)
    obtain r3 c3 w3 where x: "MCPClient_aexit c2 None w2 = (r3, c3, w3)"
      by (cases "MCPClient_aexit c2 None w2")
    from MCPClient_aexit_trace [of c2 None w2] x show ?thesis
      by (cases r3) (simp_all add: async_with_MCPClient_def assms b Returns)
  next
    case (Raises e)
    obtain r3 c3 w3 where x: "MCPClient_aexit c2 (Some e) w2 = (r3, c3, w3)"
      by (cases "MCPClient_aexit c2 (Some e) w2")
    from MCPClient_aexit_trace [of c2 "Some e" w2] x show ?thesis
      by (cases r3) (simp_all add: async_with_MCPClient_def assms b Raises)
  qed
qed

lemma async_with_MCPClient_body_raises:
  assumes "MCPClient_aenter lib (MCPClient_init u) wi = (Returns (), c1, w1)"
    and "body c1 w1 = (Raises e, c, w)"
  shows "fst (async_with_MCPClient lib u body wi)
     = (case fst (MCPClient_aexit c (Some e) w) of Raises e' \<Rightarrow> Raises e' | Returns v \<Rightarrow> Raises e)"
proof -
  obtain r3 c3 w3 where x: "MCPClient_aexit c (Some e) w = (r3, c3, w3)"
    by (cases "MCPClient_aexit c (Some e) w")
  show ?thesis
  proof (cases r3)
    case (Raises e')
    then show ?thesis by (simp add: async_with_MCPClient_def assms x)
  next
    case (Returns v)
    with x MCPClient_aexit_value [of c "Some e" w v] have "v = PNone" by simp
    with Returns show ?thesis by (simp add: async_with_MCPClient_def assms x)
  qed
qed




lemma demo_aenter_timeout:
  "MCPClient_aenter (demo_library False) (MCPClient_init demo_url) w0 =
     (Raises (Failure ''handshake timeout''),
      \<lparr>url = demo_url,
       stack = [(Transport demo_url, cm_aexit demo_transport),
                (Session (PStr ''read'') (PStr ''write''), (\<lambda>exc x. (Returns PNone, x)))],
       sess = Some (demo_session False)\<rparr>,
      \<lparr>trace = [Acquired (Transport demo_url),
                Acquired (Session (PStr ''read'') (PStr ''write'')), Initialize],
       ext = ()\<rparr>)"
  by (simp add: MCPClient_aenter_def enter_async_context_def MCPClient_init_def demo_library_def
      demo_transport_def demo_session_def w0_def log_def)

lemma demo_aenter_ready:
  "MCPClient_aenter (demo_library True) (MCPClient_init demo_url) w0 =
     (Returns (),
      \<lparr>url = demo_url,
       stack = [(Transport demo_url, cm_aexit demo_transport),
                (Session (PStr ''read'') (PStr ''write''), (\<lambda>exc x. (Returns PNone, x)))],
       sess = Some (demo_session True)\<rparr>,
      \<lparr>trace = [Acquired (Transport demo_url),
                Acquired (Session (PStr ''read'') (PStr ''write'')), Initialize],
       ext = ()\<rparr>)"
  by (simp add: MCPClient_aenter_def enter_async_context_def MCPClient_init_def demo_library_def
      demo_transport_def demo_session_def w0_def log_def)

lemma sess_demo_client: "sess demo_client = Some (demo_session True)"
  by (simp add: demo_client_def demo_aenter_ready)

lemma trace_demo_world:
  "trace demo_world = [Acquired (Transport demo_url),
     Acquired (Session (PStr ''read'') (PStr ''write'')), Initialize]"
  by (simp add: demo_world_def demo_aenter_ready)

lemma closing_fails_aenter:
  "MCPClient_aenter closing_fails_library (MCPClient_init demo_url) w0 =
     (Returns (),
      \<lparr>url = demo_url,
       stack = [(Transport demo_url, cm_aexit demo_transport),
                (Session (PStr ''read'') (PStr ''write''),
                 (\<lambda>exc x. (Raises (Failure ''session close failed''), x)))],
       sess = Some (demo_session True)\<rparr>,
      \<lparr>trace = [Acquired (Transport demo_url),
                Acquired (Session (PStr ''read'') (PStr ''write'')), Initialize],
       ext = ()\<rparr>)"
  by (simp add: MCPClient_aenter_def enter_async_context_def MCPClient_init_def
      closing_fails_library_def demo_transport_def demo_session_def w0_def log_def)

lemma MCPClient_call_tool_delegates:
  assumes "sess c = Some s"
  shows "fst (MCPClient_call_tool c n i w) = fst (call_tool s n i (ext w))"
    and "ext (snd (MCPClient_call_tool c n i w)) = snd (call_tool s n i (ext w))"
    and "trace (snd (MCPClient_call_tool c n i w)) = trace w @ [CallTool n i]"
  using assms by (simp_all add: MCPClient_call_tool_def split: prod.splits)

lemma spec_call_tool_sends_valid_invocation:
  assumes "phase s = Ready" and "nm \<noteq> []"
  shows "wire (snd (spec_call_tool srv nm (PDict kvs) s))
           = wire s @ [InvocationRequest (next_id s) nm (PDict kvs)]"
  using assms by (simp add: spec_call_tool_def send_def)

lemma sess_spec_client: "sess spec_client = Some (spec_session greeting_server)"
  by (simp add: spec_client_def)

lemma spec_client_valid_call:
  "MCPClient_call_tool spec_client ''get_greeting'' (PDict [(''name'', PStr ''Alice'')]) ready_world
     = (Returns (PDict [(''greeting'', PDict [(''name'', PStr ''Alice'')])]),
        \<lparr>trace = [CallTool ''get_greeting'' (PDict [(''name'', PStr ''Alice'')])],
         ext = \<lparr>phase = Ready,
                wire = [HandshakeRequest 0,
                        InvocationRequest 1 ''get_greeting'' (PDict [(''name'', PStr ''Alice'')])],
                next_id = 2\<rparr>\<rparr>)"
  by (simp add: MCPClient_call_tool_def spec_client_def spec_session_def spec_call_tool_def
      greeting_server_def ready_world_def send_def log_def)

section \<open>The claims\<close>


text \<open>
  An instance: A is entered and its release raises, a callback is pushed, entering C
  raises, D is never reached. The callback and A are both released, the callback first.
\<close>

lemma stack_example_failing_acquire_and_release:
  "async_with_stack
     (run_ops
        [Enter (Conn ''A'') \<lparr>cm_aenter = (\<lambda>x. (Returns PNone, x)),
                             cm_aexit = (\<lambda>exc x. (Raises (Failure ''closing A failed''), x))\<rparr>,
         Push (Callback ''flush'') (\<lambda>x. (Returns PNone, x)),
         Enter (Conn ''C'') \<lparr>cm_aenter = (\<lambda>x. (Raises (Failure ''opening C failed''), x)),
                             cm_aexit = (\<lambda>exc x. (Returns PNone, x))\<rparr>,
         Enter (Conn ''D'') \<lparr>cm_aenter = (\<lambda>x. (Returns PNone, x)),
                             cm_aexit = (\<lambda>exc x. (Returns PNone, x))\<rparr>])
     w0
   = (Raises (Failure ''closing A failed''),
      \<lparr>trace = [Acquired (Conn ''A''), Pushed (Callback ''flush''), AcquireFailed (Conn ''C''),
                Release (Callback ''flush''), Release (Conn ''A'')],
       ext = ()\<rparr>)"
  by (simp add: async_with_stack_def enter_async_context_def push_async_callback_def
      exit_wrapper_def stack_aexit_def w0_def log_def)

text \<open>
  Claim C2, as the code has it. \<^verbatim>\<open>__aenter__\<close> has no handler, and the
  \<^verbatim>\<open>async with\<close> statement does not call \<^verbatim>\<open>__aexit__\<close> when \<^verbatim>\<open>__aenter__\<close>
  raises. So when a step of the acquisition fails, the failure reaches the caller
  unchanged, no later step runs (the events end with the failing step: the transport,
  or the session after the transport, or the handshake after both), and the
  acquisition has released nothing: every resource entered before the failing step is
  registered on the client's stack. Closing that stack releases each of them once, in
  reverse order, and leaves the stack empty.
\<close>

theorem acquisition_failure_keeps_entries:
  assumes "MCPClient_aenter lib (MCPClient_init u) w = (Raises e, c, w1)"
  shows "async_with_MCPClient lib u body w = (Raises e, c, w1)
    \<and> (\<exists>es. trace w1 = trace w @ es \<and> released es = [] \<and> map fst (stack c) = registered es
          \<and> (es = [AcquireFailed (Transport u)]
             \<or> (\<exists>r wr. es = [Acquired (Transport u), AcquireFailed (Session r wr)])
             \<or> (\<exists>r wr. es = [Acquired (Transport u), Acquired (Session r wr), Initialize])))
    \<and> trace (snd (snd (MCPClient_aexit c args w1)))
        = trace w1 @ map Release (rev (map fst (stack c)))
    \<and> stack (fst (snd (MCPClient_aexit c args w1))) = []"
proof -
  have u: "url (MCPClient_init u :: 'a MCPClient) = u" "stack (MCPClient_init u :: 'a MCPClient) = []"
    by (simp_all add: MCPClient_init_def)
  have a: "async_with_MCPClient lib u body w = (Raises e, c, w1)"
    using assms by (simp add: async_with_MCPClient_def)
  have b: "\<exists>es. trace w1 = trace w @ es \<and> released es = [] \<and> map fst (stack c) = registered es
          \<and> (es = [AcquireFailed (Transport u)]
             \<or> (\<exists>r wr. es = [Acquired (Transport u), AcquireFailed (Session r wr)])
             \<or> (\<exists>r wr. es = [Acquired (Transport u), Acquired (Session r wr), Initialize]))"
    using MCPClient_aenter_Raises_inv [OF assms] by (auto simp: u)
  show ?thesis
    using a b MCPClient_aexit_trace [of c args w1] MCPClient_aexit_stack [of c args w1] by blast
qed

theorem acquisition_failure_keeps_entries_witness:
  "MCPClient_aenter (demo_library False) (MCPClient_init demo_url) w0 =
     (Raises (Failure ''handshake timeout''),
      fst (snd (MCPClient_aenter (demo_library False) (MCPClient_init demo_url) w0)),
      snd (snd (MCPClient_aenter (demo_library False) (MCPClient_init demo_url) w0)))
   \<and> fst (async_with_MCPClient (demo_library False) demo_url (run_facade_ops []) w0)
       = Raises (Failure ''handshake timeout'')
   \<and> trace (snd (snd (MCPClient_aexit
         (fst (snd (MCPClient_aenter (demo_library False) (MCPClient_init demo_url) w0))) None
         (snd (snd (MCPClient_aenter (demo_library False) (MCPClient_init demo_url) w0))))))
       = [Acquired (Transport demo_url), Acquired (Session (PStr ''read'') (PStr ''write'')),
          Initialize, Release (Session (PStr ''read'') (PStr ''write'')),
          Release (Transport demo_url)]"
proof -
  have h: "MCPClient_aenter (demo_library False) (MCPClient_init demo_url) w0 =
     (Raises (Failure ''handshake timeout''),
      fst (snd (MCPClient_aenter (demo_library False) (MCPClient_init demo_url) w0)),
      snd (snd (MCPClient_aenter (demo_library False) (MCPClient_init demo_url) w0)))"
    by (simp add: demo_aenter_timeout)
  from acquisition_failure_keeps_entries [OF h, of "run_facade_ops []" None] h
  show ?thesis by (simp add: demo_aenter_timeout)
qed

text \<open>
  The claim as stated fails: with a transport that opens and a handshake that times
  out, the statement raises the timeout and the transport's close has been invoked
  zero times, not once.
\<close>

theorem acquisition_failure_no_release_counterexample:
  "fst (async_with_MCPClient (demo_library False) demo_url (run_facade_ops []) w0)
     = Raises (Failure ''handshake timeout'')
   \<and> trace (snd (snd (async_with_MCPClient (demo_library False) demo_url (run_facade_ops []) w0)))
     = [Acquired (Transport demo_url), Acquired (Session (PStr ''read'') (PStr ''write'')), Initialize]
   \<and> count_list (trace (snd (snd (async_with_MCPClient (demo_library False) demo_url
         (run_facade_ops []) w0)))) (Release (Transport demo_url)) \<noteq> 1"
  by (simp add: async_with_MCPClient_def demo_aenter_timeout)

text \<open>
  Claim C3, as the code has it. The facade keeps no initialization state and defines
  no \<^verbatim>\<open>ProtocolMisuseError\<close>. On a client whose \<^verbatim>\<open>_sess\<close> is still \<^verbatim>\<open>None\<close>
  (every client before its acquisition has bound a session), \<^verbatim>\<open>call_tool\<close> fails
  with \<^verbatim>\<open>AttributeError\<close> and leaves the world as it was: no request is sent.
\<close>

theorem call_tool_without_session:
  assumes "sess c = None"
  shows "MCPClient_call_tool c n i w = (Raises (AttributeError ''call_tool''), w)"
  using assms by (simp add: MCPClient_call_tool_def)

theorem call_tool_without_session_witness:
  "sess (MCPClient_init demo_url :: unit MCPClient) = None
   \<and> MCPClient_call_tool (MCPClient_init demo_url) ''get_greeting''
        (PDict [(''name'', PStr ''Alice'')]) w0 = (Raises (AttributeError ''call_tool''), w0)"
proof -
  have h: "sess (MCPClient_init demo_url :: unit MCPClient) = None"
    by (simp add: MCPClient_init_def)
  from call_tool_without_session [OF h] h show ?thesis by simp
qed

text \<open>
  The claim as stated fails on the error kind: on a freshly constructed client the
  call raises \<^verbatim>\<open>AttributeError\<close>, which is not \<^verbatim>\<open>ProtocolMisuseError\<close>.
\<close>

theorem call_tool_before_session_counterexample:
  "fst (MCPClient_call_tool (MCPClient_init demo_url) ''get_greeting''
          (PDict [(''name'', PStr ''Alice'')]) w0) = Raises (AttributeError ''call_tool'')
   \<and> fst (MCPClient_call_tool (MCPClient_init demo_url) ''get_greeting''
          (PDict [(''name'', PStr ''Alice'')]) w0) \<noteq> Raises ProtocolMisuseError"
  by (simp add: MCPClient_call_tool_def MCPClient_init_def)

text \<open>
  Claim C4. When the session answers \<^verbatim>\<open>list_tools\<close> with a result holding any
  number of descriptors, \<^verbatim>\<open>list_tool_names\<close> returns exactly their \<^verbatim>\<open>name\<close>
  fields, in the same order and as many (nothing reordered, merged or dropped), after
  one list request.
\<close>

theorem list_tool_names_projects_names:
  assumes "sess c = Some s" and "list_tools s (ext w) = (Returns res, x)"
  shows "fst (MCPClient_list_tool_names c w) = Returns (map name (tools res))
    \<and> length (map name (tools res)) = length (tools res)
    \<and> trace (snd (MCPClient_list_tool_names c w)) = trace w @ [ListTools]"
  using assms by (simp add: MCPClient_list_tool_names_def)

theorem list_tool_names_projects_names_witness:
  "sess (demo_client\<lparr>sess := Some three_tools_session\<rparr>) = Some three_tools_session
   \<and> list_tools three_tools_session (ext demo_world)
       = (Returns \<lparr>tools = [\<lparr>name = ''b'', input_schema = None, output_schema = None\<rparr>,
                            \<lparr>name = ''a'', input_schema = None, output_schema = None\<rparr>,
                            \<lparr>name = ''b'', input_schema = None, output_schema = None\<rparr>]\<rparr>, ())
   \<and> fst (MCPClient_list_tool_names (demo_client\<lparr>sess := Some three_tools_session\<rparr>) demo_world)
       = Returns [''b'', ''a'', ''b'']"
proof -
  have h1: "sess (demo_client\<lparr>sess := Some three_tools_session\<rparr>) = Some three_tools_session"
    by simp
  have h2: "list_tools three_tools_session (ext demo_world)
       = (Returns \<lparr>tools = [\<lparr>name = ''b'', input_schema = None, output_schema = None\<rparr>,
                            \<lparr>name = ''a'', input_schema = None, output_schema = None\<rparr>,
                            \<lparr>name = ''b'', input_schema = None, output_schema = None\<rparr>]\<rparr>, ())"
    by (simp add: three_tools_session_def)
  from list_tool_names_projects_names [OF h1 h2] h1 h2
  show ?thesis by simp
qed

text \<open>
  Claim C5. The facade's \<^verbatim>\<open>call_tool\<close> hands its arguments to the session, and
  the session of the specification validates them before it sends anything. So for
  every call through a client bound to that session in which the name is the empty
  string or the input is not a key-to-value mapping, the call fails (with the
  validation failure in \<open>Ready\<close>, with the state error in any other phase) and the
  session's state is untouched: no invocation request has been put on the wire.
\<close>

theorem call_tool_validates_before_sending:
  assumes "sess c = Some (spec_session srv)" and "nm = [] \<or> \<not> is_mapping inp"
  shows "fst (MCPClient_call_tool c nm inp w)
        = Raises (if phase (ext w) = Ready then Failure ''invalid arguments''
                  else ProtocolMisuseError)
    \<and> ext (snd (MCPClient_call_tool c nm inp w)) = ext w
    \<and> wire (ext (snd (MCPClient_call_tool c nm inp w))) = wire (ext w)"
proof -
  have s: "call_tool (spec_session srv) = spec_call_tool srv"
    by (simp add: spec_session_def)
  have "fst (spec_call_tool srv nm inp (ext w))
        = Raises (if phase (ext w) = Ready then Failure ''invalid arguments''
                  else ProtocolMisuseError)
      \<and> snd (spec_call_tool srv nm inp (ext w)) = ext w"
    using assms(2) by (auto simp: spec_call_tool_def)
  then show ?thesis
    using MCPClient_call_tool_delegates [OF assms(1), of nm inp w] by (simp add: s)
qed

theorem call_tool_validates_before_sending_witness:
  "sess spec_client = Some (spec_session greeting_server)
   \<and> ([] = ([] :: string) \<or> \<not> is_mapping (PDict [(''name'', PStr ''Alice'')]))
   \<and> (''get_greeting'' = [] \<or> \<not> is_mapping (PInt 5))
   \<and> fst (MCPClient_call_tool spec_client [] (PDict [(''name'', PStr ''Alice'')]) ready_world)
       = Raises (Failure ''invalid arguments'')
   \<and> wire (ext (snd (MCPClient_call_tool spec_client [] (PDict [(''name'', PStr ''Alice'')]) ready_world)))
       = [HandshakeRequest 0]
   \<and> fst (MCPClient_call_tool spec_client ''get_greeting'' (PInt 5) ready_world)
       = Raises (Failure ''invalid arguments'')
   \<and> wire (ext (snd (MCPClient_call_tool spec_client ''get_greeting'' (PInt 5) ready_world)))
       = [HandshakeRequest 0]"
proof -
  have h1: "[] = ([] :: string) \<or> \<not> is_mapping (PDict [(''name'', PStr ''Alice'')])" by simp
  have h2: "''get_greeting'' = [] \<or> \<not> is_mapping (PInt 5)" by simp
  have w: "wire (ext ready_world) = [HandshakeRequest 0]" "phase (ext ready_world) = Ready"
    by (simp_all add: ready_world_def)
  from call_tool_validates_before_sending [OF sess_spec_client h1, of ready_world]
    call_tool_validates_before_sending [OF sess_spec_client h2, of ready_world]
    sess_spec_client h1 h2 w
  show ?thesis by simp
qed

text \<open>
  Claim C6. With a session bound, the facade's \<^verbatim>\<open>call_tool\<close> is the session's
  \<^verbatim>\<open>call_tool\<close> on the same arguments: a result is returned unchanged, a failure
  is raised unchanged, and the collaborators' state afterwards is the one the session
  left.
\<close>

theorem call_tool_is_session_call_tool:
  assumes "sess c = Some s"
  shows "(call_tool s n i (ext w) = (Returns v, x)
            \<longrightarrow> MCPClient_call_tool c n i w = (Returns v, log (CallTool n i) x w))
    \<and> (call_tool s n i (ext w) = (Raises e, x)
            \<longrightarrow> MCPClient_call_tool c n i w = (Raises e, log (CallTool n i) x w))
    \<and> fst (MCPClient_call_tool c n i w) = fst (call_tool s n i (ext w))
    \<and> ext (snd (MCPClient_call_tool c n i w)) = snd (call_tool s n i (ext w))"
  using assms by (simp add: MCPClient_call_tool_def split: prod.splits)

theorem call_tool_is_session_call_tool_witness:
  "sess demo_client = Some (demo_session True)
   \<and> call_tool (demo_session True) ''get_greeting'' (PDict [(''name'', PStr ''Alice'')]) (ext demo_world)
       = (Returns (PDict [(''tool'', PStr ''get_greeting''), (''input'', PDict [(''name'', PStr ''Alice'')])]), ())
   \<and> MCPClient_call_tool demo_client ''get_greeting'' (PDict [(''name'', PStr ''Alice'')]) demo_world
       = (Returns (PDict [(''tool'', PStr ''get_greeting''), (''input'', PDict [(''name'', PStr ''Alice'')])]),
          log (CallTool ''get_greeting'' (PDict [(''name'', PStr ''Alice'')])) () demo_world)
   \<and> sess (demo_client\<lparr>sess := Some failing_session\<rparr>) = Some failing_session
   \<and> call_tool failing_session ''missing_tool'' (PDict []) (ext demo_world)
       = (Raises (Failure ''unknown tool''), ())
   \<and> MCPClient_call_tool (demo_client\<lparr>sess := Some failing_session\<rparr>) ''missing_tool'' (PDict []) demo_world
       = (Raises (Failure ''unknown tool''), log (CallTool ''missing_tool'' (PDict [])) () demo_world)"
proof -
  have h1: "call_tool (demo_session True) ''get_greeting'' (PDict [(''name'', PStr ''Alice'')]) (ext demo_world)
       = (Returns (PDict [(''tool'', PStr ''get_greeting''), (''input'', PDict [(''name'', PStr ''Alice'')])]), ())"
    by (simp add: demo_session_def)
  have h2: "sess (demo_client\<lparr>sess := Some failing_session\<rparr>) = Some failing_session"
    by simp
  have h3: "call_tool failing_session ''missing_tool'' (PDict []) (ext demo_world)
       = (Raises (Failure ''unknown tool''), ())"
    by (simp add: failing_session_def)
  from call_tool_is_session_call_tool [OF sess_demo_client, of "''get_greeting''"
      "PDict [(''name'', PStr ''Alice'')]" demo_world]
    call_tool_is_session_call_tool [OF h2, of "''missing_tool''" "PDict []" demo_world]
    h1 h2 h3 sess_demo_client
  show ?thesis by simp
qed

text \<open>
  Claim C7, as the code has it. Releasing the facade unwinds the stack in strict
  reverse order of registration. Callbacks pushed after the acquisition therefore run
  first (the latest first), then the session is closed, then the transport, and last
  whatever was registered on the stack before the acquisition.
\<close>

theorem release_is_reverse_registration:
  assumes "MCPClient_aenter lib c0 w = (Returns (), c1, w1)"
  shows "\<exists>r wr u x1.
      cm_aenter (streamablehttp_client lib (url c0)) (ext w) = (Returns (r, wr, u), x1)
    \<and> trace (snd (snd (MCPClient_aexit (c1\<lparr>stack := stack c1 @ post\<rparr>) args w2)))
        = trace w2 @ map Release (rev (map fst post))
            @ [Release (Session r wr), Release (Transport (url c0))]
            @ map Release (rev (map fst (stack c0)))"
proof -
  from MCPClient_aenter_Returns_inv [OF assms] obtain r wr u x1 s x2 v x3 where
    t: "cm_aenter (streamablehttp_client lib (url c0)) (ext w) = (Returns (r, wr, u), x1)"
    and s: "cm_aenter (ClientSession lib r wr) x1 = (Returns s, x2)"
    and i: "initialize s x2 = (Returns v, x3)"
    by blast
  from MCPClient_aenter_succeeds [OF t s i] assms
  have c1: "map fst (stack c1) = map fst (stack c0) @ [Transport (url c0), Session r wr]"
    by auto
  have "trace (snd (snd (MCPClient_aexit (c1\<lparr>stack := stack c1 @ post\<rparr>) args w2)))
        = trace w2 @ map Release (rev (map fst post))
            @ [Release (Session r wr), Release (Transport (url c0))]
            @ map Release (rev (map fst (stack c0)))"
    using MCPClient_aexit_trace [of "c1\<lparr>stack := stack c1 @ post\<rparr>" args w2]
    by (simp add: c1)
  with t show ?thesis by blast
qed

theorem release_is_reverse_registration_witness:
  "MCPClient_aenter (demo_library True) (MCPClient_init demo_url) w0
     = (Returns (), demo_client, demo_world)
   \<and> trace (snd (snd (MCPClient_aexit
        (demo_client\<lparr>stack := stack demo_client @ [(Callback ''flush'', exit_wrapper noop_callback)]\<rparr>)
        None demo_world)))
     = [Acquired (Transport demo_url), Acquired (Session (PStr ''read'') (PStr ''write'')),
        Initialize, Release (Callback ''flush''),
        Release (Session (PStr ''read'') (PStr ''write'')), Release (Transport demo_url)]"
proof -
  have h: "MCPClient_aenter (demo_library True) (MCPClient_init demo_url) w0
     = (Returns (), demo_client, demo_world)"
    by (simp add: demo_client_def demo_world_def demo_aenter_ready)
  have t: "cm_aenter (streamablehttp_client (demo_library True) (url (MCPClient_init demo_url))) (ext w0)
     = (Returns (PStr ''read'', PStr ''write'', PNone), ())"
    by (simp add: demo_library_def demo_transport_def)
  from release_is_reverse_registration [OF h,
      of "[(Callback ''flush'', exit_wrapper noop_callback)]" None demo_world] h t
  show ?thesis by (simp add: trace_demo_world MCPClient_init_def)
qed

text \<open>
  The claim as stated fails: a callback pushed inside the block runs before the
  session and the transport are closed, not after them.
\<close>

theorem callbacks_pushed_later_run_first_counterexample:
  "released (trace (snd (snd (async_with_MCPClient (demo_library True) demo_url
       (push_on_client (Callback ''flush'') noop_callback) w0))))
     = [Callback ''flush'', Session (PStr ''read'') (PStr ''write''), Transport demo_url]
   \<and> released (trace (snd (snd (async_with_MCPClient (demo_library True) demo_url
       (push_on_client (Callback ''flush'') noop_callback) w0))))
     \<noteq> [Session (PStr ''read'') (PStr ''write''), Transport demo_url, Callback ''flush'']"
  by (simp add: async_with_MCPClient_def demo_aenter_ready push_on_client_def
      push_async_callback_def MCPClient_aexit_def aclose_def stack_aexit_def exit_wrapper_def
      noop_callback_def demo_transport_def log_def)



text \<open>
  Claim C9, as the code has it. \<^verbatim>\<open>__aexit__\<close> does not look at the exception
  details it is given; it closes the stack (every registered entry is released, in
  reverse order, and the stack is left empty); and when it returns, it returns
  \<^verbatim>\<open>None\<close>, which is not truthy. So a failure inside the block is never swallowed:
  the statement raises the body's exception when the teardown returns, and the
  exception the teardown raised when a release step raises. On a normal exit of the
  body the stack is closed in the same way.
\<close>

theorem aexit_closes_stack_and_never_suppresses:
  "MCPClient_aexit c args w = MCPClient_aexit c None w
   \<and> stack (fst (snd (MCPClient_aexit c args w))) = []
   \<and> trace (snd (snd (MCPClient_aexit c args w))) = trace w @ map Release (rev (map fst (stack c)))
   \<and> (\<forall>v. fst (MCPClient_aexit c args w) = Returns v \<longrightarrow> v = PNone \<and> \<not> truthy v)
   \<and> (MCPClient_aenter lib (MCPClient_init u) wi = (Returns (), c1, w1)
        \<and> body c1 w1 = (Raises e, c, w)
      \<longrightarrow> (\<exists>e'. fst (async_with_MCPClient lib u body wi) = Raises e')
        \<and> (\<forall>v. fst (MCPClient_aexit c (Some e) w) = Returns v
              \<longrightarrow> fst (async_with_MCPClient lib u body wi) = Raises e)
        \<and> (\<forall>e'. fst (MCPClient_aexit c (Some e) w) = Raises e'
              \<longrightarrow> fst (async_with_MCPClient lib u body wi) = Raises e')
        \<and> trace (snd (snd (async_with_MCPClient lib u body wi)))
            = trace w @ map Release (rev (map fst (stack c))))
   \<and> (MCPClient_aenter lib (MCPClient_init u) wi = (Returns (), c1, w1)
        \<and> body c1 w1 = (Returns b, c, w)
      \<longrightarrow> trace (snd (snd (async_with_MCPClient lib u body wi)))
            = trace w @ map Release (rev (map fst (stack c))))"
proof -
  have a: "MCPClient_aexit c args w = MCPClient_aexit c None w"
    by (simp add: MCPClient_aexit_def)
  have b: "\<forall>v. fst (MCPClient_aexit c args w) = Returns v \<longrightarrow> v = PNone \<and> \<not> truthy v"
    using MCPClient_aexit_value [of c args w] by auto
  have d: "trace (snd (snd (async_with_MCPClient lib u body wi)))
            = trace w @ map Release (rev (map fst (stack c)))"
    if "MCPClient_aenter lib (MCPClient_init u) wi = (Returns (), c1, w1)"
      and "body c1 w1 = (rb, c, w)" for rb
    using async_with_MCPClient_trace [OF that(1), of body] that(2) by simp
  have r: "(\<exists>e'. fst (async_with_MCPClient lib u body wi) = Raises e')
        \<and> (\<forall>v. fst (MCPClient_aexit c (Some e) w) = Returns v
              \<longrightarrow> fst (async_with_MCPClient lib u body wi) = Raises e)
        \<and> (\<forall>e'. fst (MCPClient_aexit c (Some e) w) = Raises e'
              \<longrightarrow> fst (async_with_MCPClient lib u body wi) = Raises e')"
    if "MCPClient_aenter lib (MCPClient_init u) wi = (Returns (), c1, w1)"
      and "body c1 w1 = (Raises e, c, w)"
    using async_with_MCPClient_body_raises [of lib u wi c1 w1 body e c w] that
    by (cases "fst (MCPClient_aexit c (Some e) w)") simp_all
  show ?thesis
    using a b d r MCPClient_aexit_stack [of c args w] MCPClient_aexit_trace [of c args w]
    by blast
qed

theorem aexit_closes_stack_and_never_suppresses_witness:
  "MCPClient_aenter (demo_library True) (MCPClient_init demo_url) w0
      = (Returns (), demo_client, demo_world)
   \<and> raising_body demo_client demo_world = (Raises (Failure ''body failed''), demo_client, demo_world)
   \<and> fst (MCPClient_aexit demo_client (Some (Failure ''body failed'')) demo_world) = Returns PNone
   \<and> fst (async_with_MCPClient (demo_library True) demo_url raising_body w0)
      = Raises (Failure ''body failed'')
   \<and> trace (snd (snd (async_with_MCPClient (demo_library True) demo_url raising_body w0)))
      = [Acquired (Transport demo_url), Acquired (Session (PStr ''read'') (PStr ''write'')),
         Initialize, Release (Session (PStr ''read'') (PStr ''write'')),
         Release (Transport demo_url)]
   \<and> stack (fst (snd (MCPClient_aexit demo_client None demo_world))) = []
   \<and> MCPClient_aenter closing_fails_library (MCPClient_init demo_url) w0
      = (Returns (), closing_client, closing_world)
   \<and> raising_body closing_client closing_world
      = (Raises (Failure ''body failed''), closing_client, closing_world)
   \<and> fst (MCPClient_aexit closing_client (Some (Failure ''body failed'')) closing_world)
      = Raises (Failure ''session close failed'')
   \<and> fst (async_with_MCPClient closing_fails_library demo_url raising_body w0)
      = Raises (Failure ''session close failed'')"
proof -
  have h: "MCPClient_aenter (demo_library True) (MCPClient_init demo_url) w0
      = (Returns (), demo_client, demo_world)"
    by (simp add: demo_client_def demo_world_def demo_aenter_ready)
  have b: "raising_body demo_client demo_world
      = (Raises (Failure ''body failed''), demo_client, demo_world)"
    by (simp add: raising_body_def)
  have st: "map fst (stack demo_client) = [Transport demo_url, Session (PStr ''read'') (PStr ''write'')]"
    by (simp add: demo_client_def demo_aenter_ready)
  have x: "fst (MCPClient_aexit demo_client (Some (Failure ''body failed'')) demo_world) = Returns PNone"
    by (simp add: MCPClient_aexit_def aclose_def stack_aexit_def demo_client_def demo_aenter_ready
        demo_transport_def)
  have h': "MCPClient_aenter closing_fails_library (MCPClient_init demo_url) w0
      = (Returns (), closing_client, closing_world)"
    by (simp add: closing_client_def closing_world_def closing_fails_aenter)
  have b': "raising_body closing_client closing_world
      = (Raises (Failure ''body failed''), closing_client, closing_world)"
    by (simp add: raising_body_def)
  have x': "fst (MCPClient_aexit closing_client (Some (Failure ''body failed'')) closing_world)
      = Raises (Failure ''session close failed'')"
    by (simp add: MCPClient_aexit_def aclose_def stack_aexit_def closing_client_def
        closing_fails_aenter demo_transport_def)
  from aexit_closes_stack_and_never_suppresses [of demo_client None
      demo_world "demo_library True" demo_url w0 demo_client demo_world raising_body
      "Failure ''body failed''"]
    aexit_closes_stack_and_never_suppresses [of closing_client None
      closing_world closing_fails_library demo_url w0 closing_client closing_world raising_body
      "Failure ''body failed''"]
    h b x h' b' x'
  show ?thesis by (simp add: st trace_demo_world)
qed

text \<open>
  The claim as stated fails where it says that the failure inside the block is the
  one that propagates: when the session raises while it is closed, the statement
  raises that exception and not the one the body raised. Both releases still run.
\<close>

theorem teardown_failure_replaces_body_failure_counterexample:
  "fst (async_with_MCPClient closing_fails_library demo_url raising_body w0)
     = Raises (Failure ''session close failed'')
   \<and> fst (async_with_MCPClient closing_fails_library demo_url raising_body w0)
     \<noteq> Raises (Failure ''body failed'')
   \<and> trace (snd (snd (async_with_MCPClient closing_fails_library demo_url raising_body w0)))
     = [Acquired (Transport demo_url), Acquired (Session (PStr ''read'') (PStr ''write'')),
        Initialize, Release (Session (PStr ''read'') (PStr ''write'')),
        Release (Transport demo_url)]"
  by (simp add: async_with_MCPClient_def closing_fails_aenter raising_body_def
      MCPClient_aexit_def aclose_def stack_aexit_def demo_transport_def log_def)

text \<open>
  Claim C10. In \<^verbatim>\<open>main\<close> the guard \<^verbatim>\<open>a == "A"\<close> always holds: entering
  \<^verbatim>\<open>get_connection("A")\<close> returns \<^verbatim>\<open>"A"\<close>, so connection B is acquired on every
  run and the last print never takes the \<^verbatim>\<open>no B\<close> alternative.
\<close>

theorem main_always_acquires_B:
  "fst (ctx_aenter ''A'' out) = Returns ''A''
   \<and> ''Doing with A and no B'' \<notin> set (drop (length (ext w)) (ext (snd (main w))))
   \<and> main w = (Returns (),
     \<lparr>trace = trace w @ [Acquired (Conn ''A''), Acquired (Conn ''B''), Pushed (Callback ''custom_cleanup''),
                         Release (Callback ''custom_cleanup''), Release (Conn ''B''), Release (Conn ''A'')],
      ext = ext w @ [''ENTER...A'', ''ENTER...B'', ''Using connection: A and B'', ''Doing with A and B'',
                     ''Custom cleanup logic here.'', ''EXIT! B'', ''EXIT! A'']\<rparr>)"
  by (simp add: main_def async_with_stack_def main_body_def main_tail_def enter_async_context_def
      push_async_callback_def get_connection_def ctx_aenter_def ctx_aexit_def custom_cleanup_def
      exit_wrapper_def stack_aexit_def print_def log_def)

end
